theory Spec2Isabelle
  imports Complex_Main
begin

section \<open>The dashboard store (stores/dashboardStore.js)\<close>

text \<open>
  The store is a Zustand container: every action is a function from the current state to
  the next one. The fields modelled are the ones the actions below read or write. JavaScript numbers that only count are modelled as \<open>int\<close>, metric values
  as \<open>real\<close>, objects used as dictionaries as maps, arrays as lists. A field that is
  absent from an incoming object (\<open>undefined\<close>) is \<open>None\<close>.
\<close>

subsection \<open>Data\<close>

text \<open>
  An alert as the panel reads it: \<open>alert.id\<close>, \<open>alert.read\<close> (tested by truthiness, so an
  absent field is \<open>False\<close>), and the wire fields message, type, priority, timestamp.
\<close>

record 'i alert =
  alert_id :: 'i
  message :: string
  alert_type :: string
  priority :: string
  timestamp :: string
  read :: bool

record ('i, 'v) store =
  lastUpdate :: "string option"
  positions :: "'v list"
  trades :: "'v list"
  signals :: "'v list"
  performance :: "string \<rightharpoonup> real"
  volatilityData :: "string \<rightharpoonup> 'v"
  priceData :: "string \<rightharpoonup> 'v"
  equityCurve :: "real list"
  alerts :: "'i alert list"
  unreadAlerts :: int

text \<open>The payload of a \<open>dashboard_update\<close> message; every field may be absent.\<close>

record 'v dashboard_data =
  data_positions :: "'v list option"
  data_performance :: "(string \<rightharpoonup> real) option"
  data_volatility :: "(string \<rightharpoonup> 'v) option"
  data_prices :: "(string \<rightharpoonup> 'v) option"
  data_signals :: "'v list option"
  data_equity_curve :: "real list option"
  data_timestamp :: "string option"

definition initial_performance :: "string \<rightharpoonup> real" where
  "initial_performance = map_of
     [(''total_pnl'', 0), (''daily_pnl'', 0), (''weekly_pnl'', 0), (''monthly_pnl'', 0),
      (''win_rate'', 0), (''profit_factor'', 0), (''sharpe_ratio'', 0), (''max_drawdown'', 0),
      (''current_drawdown'', 0), (''total_trades'', 0), (''winning_trades'', 0),
      (''losing_trades'', 0), (''avg_win'', 0), (''avg_loss'', 0), (''best_trade'', 0),
      (''worst_trade'', 0), (''roi'', 0), (''balance'', 10000), (''equity'', 10000),
      (''margin_used'', 0), (''free_margin'', 10000), (''margin_level'', 100)]"

definition initial_store :: "('i, 'v) store" where
  "initial_store =
     \<lparr> lastUpdate = None, positions = [], trades = [], signals = [],
       performance = initial_performance, volatilityData = Map.empty, priceData = Map.empty,
       equityCurve = [], alerts = [], unreadAlerts = 0 \<rparr>"

subsection \<open>Actions\<close>

text \<open>\<open>updatePerformance\<close>: the object spread \<open>{...state.performance, ...performance}\<close>.\<close>

definition updatePerformance :: "(string \<rightharpoonup> real) \<Rightarrow> ('i, 'v) store \<Rightarrow> ('i, 'v) store" where
  "updatePerformance p s = s\<lparr> performance := performance s ++ p \<rparr>"

text \<open>\<open>addTrade\<close>: \<open>[trade, ...state.trades.slice(0, 999)]\<close>.\<close>

definition addTrade :: "'v \<Rightarrow> ('i, 'v) store \<Rightarrow> ('i, 'v) store" where
  "addTrade trade s = s\<lparr> trades := trade # take 999 (trades s) \<rparr>"

text \<open>\<open>addAlert\<close>: \<open>[alert, ...state.alerts.slice(0, 99)]\<close> and \<open>unreadAlerts + 1\<close>.\<close>

definition addAlert :: "'i alert \<Rightarrow> ('i, 'v) store \<Rightarrow> ('i, 'v) store" where
  "addAlert a s =
     s\<lparr> alerts := a # take 99 (alerts s), unreadAlerts := unreadAlerts s + 1 \<rparr>"

text \<open>
  \<open>markAlertRead\<close>: the alerts whose id equals the argument get \<open>read: true\<close>, and the
  counter becomes \<open>Math.max(0, unreadAlerts - 1)\<close>.
\<close>

definition markAlertRead :: "'i \<Rightarrow> ('i, 'v) store \<Rightarrow> ('i, 'v) store" where
  "markAlertRead alertId s =
     s\<lparr> alerts := map (\<lambda>a. if alert_id a = alertId then a\<lparr> read := True \<rparr> else a) (alerts s),
        unreadAlerts := max 0 (unreadAlerts s - 1) \<rparr>"

definition clearAllAlerts :: "('i, 'v) store \<Rightarrow> ('i, 'v) store" where
  "clearAllAlerts s = s\<lparr> alerts := [], unreadAlerts := 0 \<rparr>"

text \<open>
  \<open>handleDashboardUpdate\<close>: \<open>data.x || state.x\<close> keeps the old value when the field is
  absent (arrays and objects are truthy, also when empty); the performance objects are
  spread one over the other, and spreading an absent \<open>data.performance\<close> adds nothing;
  \<open>lastUpdate\<close> is always overwritten.
\<close>

definition handleDashboardUpdate :: "'v dashboard_data \<Rightarrow> ('i, 'v) store \<Rightarrow> ('i, 'v) store" where
  "handleDashboardUpdate d s =
     s\<lparr> positions := (case data_positions d of Some v \<Rightarrow> v | None \<Rightarrow> positions s),
        performance := (case data_performance d of Some p \<Rightarrow> performance s ++ p
                        | None \<Rightarrow> performance s),
        volatilityData := (case data_volatility d of Some v \<Rightarrow> v | None \<Rightarrow> volatilityData s),
        priceData := (case data_prices d of Some v \<Rightarrow> v | None \<Rightarrow> priceData s),
        signals := (case data_signals d of Some v \<Rightarrow> v | None \<Rightarrow> signals s),
        equityCurve := (case data_equity_curve d of Some v \<Rightarrow> v | None \<Rightarrow> equityCurve s),
        lastUpdate := data_timestamp d \<rparr>"

subsection \<open>Selectors\<close>

text \<open>
  A comparison of JavaScript with an absent operand (\<open>undefined < 150\<close>) is false.
\<close>

definition js_less :: "real option \<Rightarrow> real \<Rightarrow> bool" where
  "js_less x c = (case x of None \<Rightarrow> False | Some v \<Rightarrow> v < c)"

definition js_greater :: "real option \<Rightarrow> real \<Rightarrow> bool" where
  "js_greater x c = (case x of None \<Rightarrow> False | Some v \<Rightarrow> v > c)"

definition getRiskLevel :: "('i, 'v) store \<Rightarrow> string" where
  "getRiskLevel s =
     (let marginLevel = performance s ''margin_level'';
          drawdown = performance s ''current_drawdown''
      in if js_less marginLevel 150 \<or> js_greater drawdown 15 then ''high''
         else if js_less marginLevel 300 \<or> js_greater drawdown 10 then ''medium''
         else ''low'')"

subsection \<open>Sequences of actions\<close>

datatype 'i alert_op = AddAlert "'i alert" | MarkAlertRead 'i | ClearAllAlerts

fun apply_alert_op :: "'i alert_op \<Rightarrow> ('i, 'v) store \<Rightarrow> ('i, 'v) store" where
  "apply_alert_op (AddAlert a) s = addAlert a s"
| "apply_alert_op (MarkAlertRead i) s = markAlertRead i s"
| "apply_alert_op ClearAllAlerts s = clearAllAlerts s"

fun run_alert_ops :: "'i alert_op list \<Rightarrow> ('i, 'v) store \<Rightarrow> ('i, 'v) store" where
  "run_alert_ops [] s = s"
| "run_alert_ops (op # ops) s = run_alert_ops ops (apply_alert_op op s)"

fun add_trades :: "'v list \<Rightarrow> ('i, 'v) store \<Rightarrow> ('i, 'v) store" where
  "add_trades [] s = s"
| "add_trades (t # ts) s = add_trades ts (addTrade t s)"

text \<open>The number of unread alerts, as the alerts panel counts them (\<open>!alert.read\<close>).\<close>

definition unread_count :: "('i, 'v) store \<Rightarrow> int" where
  "unread_count s = int (length (filter (\<lambda>a. \<not> read a) (alerts s)))"

section \<open>The WebSocket hook (hooks/useWebSocket.js)\<close>

text \<open>
  The hook is a set of callbacks over React state (\<open>isConnected\<close>, \<open>lastMessage\<close>,
  \<open>reconnectCount\<close>) and refs (\<open>wsRef\<close>, \<open>reconnectTimeoutRef\<close>, \<open>heartbeatIntervalRef\<close>,
  \<open>messageQueueRef\<close>). Each callback is a function on a record of these, which also holds
  what the platform keeps for the hook (every socket made, the pending timeouts, the
  running intervals) and two logs: the calls made on the transport and the timers, and
  the calls made on the collaborators (store actions, toasts, sounds, console). The
  \<open>console.log\<close> lines that only report an open or a close, and \<open>onerror\<close>, which logs and
  shows a toast, are left out.
\<close>

subsection \<open>Data\<close>

datatype readyState = CONNECTING | OPEN | CLOSING | CLOSED

text \<open>
  A socket made by \<open>connect\<close>. Its handlers are closures of that \<open>connect\<close>, which read the
  \<open>reconnectCount\<close> of the render that created it: \<open>closure_count\<close>. The handlers are never
  detached, so they run for a socket that \<open>wsRef\<close> no longer holds as well. \<open>established\<close>
  says whether the socket has been open.
\<close>

record socket =
  readyState :: readyState
  closure_count :: nat
  established :: bool

datatype js_error = SyntaxError | TypeError | InvalidStateError

text \<open>What is handed to \<open>ws.send(JSON.stringify(...))\<close>: a caller's message or the heartbeat.\<close>

datatype 'm wire_out = Ping | Message 'm

text \<open>
  The calls on the platform; a socket is named by its number. \<open>send\<close> on a socket that is
  closing or closed returns without an error and the data is discarded.
\<close>

datatype 'm platform_call =
    NewWebSocket nat
  | Send nat "'m wire_out"
  | SendDiscarded nat "'m wire_out"
  | CloseSocket nat nat
  | SetTimeout nat nat
  | ClearTimeout nat
  | SetInterval nat nat
  | ClearInterval nat

text \<open>
  The object in \<open>data.data\<close> of an inbound message, with the fields the handler reads; an
  absent field is \<open>None\<close>.
\<close>

record 'x payload =
  payload_priority :: "string option"
  payload_type :: "string option"
  payload_message :: "string option"
  payload_symbol :: "string option"
  payload_side :: "string option"
  payload_rest :: 'x

text \<open>
  The result of \<open>JSON.parse\<close>: \<open>null\<close>, on which every property access throws, or a value
  with its \<open>type\<close> (\<open>None\<close> when absent or not a string), its \<open>data\<close> (\<open>None\<close> when absent or
  null) and its \<open>message\<close>.
\<close>

datatype 'x parsed = JsonNull | JsonValue "string option" "'x payload option" "string option"

text \<open>An inbound frame: \<open>event.data\<close> on which \<open>JSON.parse\<close> throws, or its parsed value.\<close>

datatype 'x frame = Unparseable | Parsed "'x parsed"

datatype toast =
    ToastSuccess "string option"
  | ToastError "string option"
  | ToastReconnecting nat

datatype 'x collaborator_call =
    SetConnectionStatus bool
  | HandleDashboardUpdate "'x payload option"
  | AddAlertCall "'x payload option"
  | InitAudio
  | PlaySound string
  | Toast toast
  | ConsoleLog string "string option"
  | ConsoleWarn string
  | ConsoleError string

record ('m, 'x) hook =
  isConnected :: bool
  lastMessage :: "'x parsed option"
  reconnectCount :: nat
  wsRef :: "nat option"
  reconnectTimeoutRef :: "nat option"
  heartbeatIntervalRef :: "nat option"
  messageQueueRef :: "'m list"
  soundEnabled :: bool
  url_valid :: bool
  audio_ok :: bool
  committed_count :: nat
  committed_sound :: bool
  sockets :: "socket list"
  timeouts :: "(nat \<times> nat \<times> nat) list"
  intervals :: "nat list"
  next_handle :: nat
  platform :: "'m platform_call list"
  calls :: "'x collaborator_call list"
  uncaught :: "js_error list"

text \<open>
  \<open>wsRef\<close> holds the number of a socket, its place in \<open>sockets\<close>. \<open>soundEnabled\<close> is read from
  the store; \<open>url_valid\<close> says whether \<open>new WebSocket(socketUrl)\<close> accepts the address, which
  the caller passes as a constant; \<open>audio_ok\<close> whether playback succeeds. \<open>committed_count\<close>
  and \<open>committed_sound\<close> are the \<open>reconnectCount\<close> and \<open>soundEnabled\<close> of the render whose
  \<open>connect\<close> the effects hold. A pending timeout is its handle, its delay in milliseconds
  and the \<open>reconnectCount\<close> its callback closed over. Handles are positive, as in a browser,
  so a stored handle is always truthy.
\<close>

definition initial_hook :: "('m, 'x) hook" where
  "initial_hook =
     \<lparr> isConnected = False, lastMessage = None, reconnectCount = 0, wsRef = None,
       reconnectTimeoutRef = None, heartbeatIntervalRef = None, messageQueueRef = [],
       soundEnabled = True, url_valid = True, audio_ok = True, committed_count = 0,
       committed_sound = True, sockets = [], timeouts = [], intervals = [], next_handle = 1,
       platform = [], calls = [], uncaught = [] \<rparr>"

subsection \<open>Callbacks\<close>

text \<open>\<open>wsRef.current\<close>: the socket held, with its number.\<close>

definition current :: "('m, 'x) hook \<Rightarrow> (nat \<times> socket) option" where
  "current s =
     (case wsRef s of
        None \<Rightarrow> None
      | Some i \<Rightarrow> if i < length (sockets s) then Some (i, sockets s ! i) else None)"

text \<open>\<open>wsRef.current?.readyState === WebSocket.OPEN\<close>\<close>

definition ws_open :: "('m, 'x) hook \<Rightarrow> bool" where
  "ws_open s = (case current s of None \<Rightarrow> False | Some (i, w) \<Rightarrow> readyState w = OPEN)"

text \<open>
  \<open>playAlertSound\<close>: nothing when sound is off; a failure of the playback is caught inside
  and logged with \<open>console.warn\<close>.
\<close>

definition playAlertSound :: "string \<Rightarrow> ('m, 'x) hook \<Rightarrow> ('m, 'x) hook" where
  "playAlertSound kind s =
     (if \<not> soundEnabled s then s
      else if audio_ok s then s\<lparr> calls := calls s @ [PlaySound kind] \<rparr>
      else s\<lparr> calls := calls s @ [ConsoleWarn ''Failed to play alert sound:''] \<rparr>)"

text \<open>
  \<open>connect\<close>, as created in a render whose \<open>reconnectCount\<close> is \<open>rc\<close>: nothing when the socket
  held is open; otherwise a new socket takes its place in \<open>wsRef\<close>, and the old one is neither
  closed nor stripped of its handlers. A constructor that throws is caught, logged and
  shown as a toast.
\<close>

definition connect :: "nat \<Rightarrow> ('m, 'x) hook \<Rightarrow> ('m, 'x) hook" where
  "connect rc s =
     (if ws_open s then s
      else if url_valid s then
        s\<lparr> sockets := sockets s @ [\<lparr> readyState = CONNECTING, closure_count = rc,
                                       established = False \<rparr>],
           wsRef := Some (length (sockets s)),
           platform := platform s @ [NewWebSocket (length (sockets s))] \<rparr>
      else
        s\<lparr> calls := calls s @ [ConsoleError ''Failed to create WebSocket connection:'',
                                Toast (ToastError (Some ''Failed to connect to server''))] \<rparr>)"

text \<open>
  The loop of \<open>onopen\<close> that sends the queued messages: \<open>shift\<close> takes the head, then
  \<open>wsRef.current.send\<close> sends it on the socket that \<open>wsRef\<close> holds at that moment, which need
  not be the socket that opened. The access throws a \<open>TypeError\<close> when \<open>wsRef.current\<close> is
  null, and \<open>send\<close> throws \<open>InvalidStateError\<close> on a socket that is still connecting; the
  message taken is then lost. Messages are values that \<open>JSON.stringify\<close> accepts. The result
  is the state where the loop stopped and the exception, if any.
\<close>

function drain_queue :: "('m, 'x) hook \<Rightarrow> ('m, 'x) hook \<times> js_error option" where
  "drain_queue s =
     (if messageQueueRef s = [] then (s, None)
      else
        let m = hd (messageQueueRef s);
            s1 = s\<lparr> messageQueueRef := tl (messageQueueRef s) \<rparr>
        in case current s1 of
             None \<Rightarrow> (s1, Some TypeError)
           | Some (i, w) \<Rightarrow>
               if readyState w = CONNECTING then (s1, Some InvalidStateError)
               else if readyState w = OPEN
               then drain_queue (s1\<lparr> platform := platform s1 @ [Send i (Message m)] \<rparr>)
               else drain_queue (s1\<lparr> platform := platform s1 @ [SendDiscarded i (Message m)] \<rparr>))"
  by pat_completeness auto
termination
  by (relation "measure (\<lambda>s. length (messageQueueRef s))") auto

declare drain_queue.simps [simp del]

text \<open>
  \<open>onopen\<close>: the statements in the order of the source; an exception of the loop ends the
  handler there.
\<close>

definition onopen :: "('m, 'x) hook \<Rightarrow> ('m, 'x) hook \<times> js_error option" where
  "onopen s =
     (let s1 = s\<lparr> isConnected := True,
                   calls := calls s @ [SetConnectionStatus True, InitAudio],
                   reconnectCount := 0 \<rparr>
      in case drain_queue s1 of
           (s2, Some e) \<Rightarrow> (s2, Some e)
         | (s2, None) \<Rightarrow>
             (s2\<lparr> heartbeatIntervalRef := Some (next_handle s2),
                  intervals := intervals s2 @ [next_handle s2],
                  next_handle := next_handle s2 + 1,
                  platform := platform s2 @ [SetInterval (next_handle s2) 30000],
                  calls := calls s2 @ [Toast (ToastSuccess (Some ''Connected to trading dashboard''))] \<rparr>,
              None))"

text \<open>The interval callback of the heartbeat.\<close>

definition heartbeat :: "('m, 'x) hook \<Rightarrow> ('m, 'x) hook" where
  "heartbeat s =
     (case current s of
        None \<Rightarrow> s
      | Some (i, w) \<Rightarrow>
          if readyState w = OPEN then s\<lparr> platform := platform s @ [Send i Ping] \<rparr> else s)"

text \<open>The block that clears the heartbeat, shared by \<open>onclose\<close> and \<open>disconnect\<close>.\<close>

definition clear_heartbeat :: "('m, 'x) hook \<Rightarrow> ('m, 'x) hook" where
  "clear_heartbeat s =
     (case heartbeatIntervalRef s of
        None \<Rightarrow> s
      | Some h \<Rightarrow>
          s\<lparr> intervals := filter (\<lambda>i. i \<noteq> h) (intervals s),
             platform := platform s @ [ClearInterval h],
             heartbeatIntervalRef := None \<rparr>)"

text \<open>
  \<open>onclose\<close> of a socket whose closure holds \<open>reconnectCount = rc\<close>, for a close event with
  the given code: \<open>Math.min(1000 * Math.pow(2, reconnectCount), 30000)\<close> is the delay of the
  timeout it sets unless the code is 1000 or 1001. The source computes it on floating-point
  numbers, where a power too large to represent is infinite and the minimum is 30000; on
  the naturals the value is the same.
\<close>

definition onclose :: "nat \<Rightarrow> nat \<Rightarrow> ('m, 'x) hook \<Rightarrow> ('m, 'x) hook" where
  "onclose rc code s =
     (let s1 = clear_heartbeat
                 (s\<lparr> isConnected := False, calls := calls s @ [SetConnectionStatus False] \<rparr>)
      in if code \<noteq> 1000 \<and> code \<noteq> 1001 then
           let timeout = min (1000 * 2 ^ rc) 30000
           in s1\<lparr> calls := calls s1 @ [Toast (ToastReconnecting timeout)],
                  reconnectTimeoutRef := Some (next_handle s1),
                  timeouts := timeouts s1 @ [(next_handle s1, timeout, rc)],
                  next_handle := next_handle s1 + 1,
                  platform := platform s1 @ [SetTimeout (next_handle s1) timeout] \<rparr>
         else s1)"

text \<open>
  The callback of the reconnection timeout: \<open>setReconnectCount(prev => prev + 1)\<close>, then the
  \<open>connect\<close> of the closure that set the timeout.
\<close>

definition reconnect_callback :: "nat \<Rightarrow> ('m, 'x) hook \<Rightarrow> ('m, 'x) hook" where
  "reconnect_callback rc s = connect rc (s\<lparr> reconnectCount := reconnectCount s + 1 \<rparr>)"

text \<open>
  What \<open>close(1000, 'Manual disconnect')\<close> does to a socket: one that is connecting or open
  starts closing, and its close event comes later; the handlers stay.
\<close>

definition close_socket :: "nat \<Rightarrow> ('m, 'x) hook \<Rightarrow> ('m, 'x) hook" where
  "close_socket i s =
     s\<lparr> sockets :=
          (if i < length (sockets s) \<and>
              (readyState (sockets s ! i) = CONNECTING \<or> readyState (sockets s ! i) = OPEN)
           then (sockets s)[i := (sockets s ! i)\<lparr> readyState := CLOSING \<rparr>]
           else sockets s),
        platform := platform s @ [CloseSocket i 1000] \<rparr>"

definition disconnect :: "('m, 'x) hook \<Rightarrow> ('m, 'x) hook" where
  "disconnect s =
     (let s1 = (case reconnectTimeoutRef s of
                  None \<Rightarrow> s
                | Some h \<Rightarrow>
                    s\<lparr> timeouts := filter (\<lambda>t. fst t \<noteq> h) (timeouts s),
                       platform := platform s @ [ClearTimeout h],
                       reconnectTimeoutRef := None \<rparr>);
          s2 = clear_heartbeat s1;
          s3 = (case wsRef s2 of
                  None \<Rightarrow> s2
                | Some i \<Rightarrow> (close_socket i s2)\<lparr> wsRef := None \<rparr>)
      in s3\<lparr> isConnected := False, calls := calls s3 @ [SetConnectionStatus False] \<rparr>)"

definition sendMessage :: "'m \<Rightarrow> ('m, 'x) hook \<Rightarrow> ('m, 'x) hook" where
  "sendMessage m s =
     (case current s of
        None \<Rightarrow> s\<lparr> messageQueueRef := messageQueueRef s @ [m] \<rparr>
      | Some (i, w) \<Rightarrow>
          if readyState w = OPEN then s\<lparr> platform := platform s @ [Send i (Message m)] \<rparr>
          else s\<lparr> messageQueueRef := messageQueueRef s @ [m] \<rparr>)"

text \<open>
  The listeners for page visibility and for the network coming back: \<open>connect\<close> when the
  hook is not connected.
\<close>

definition reconnect_if_down :: "('m, 'x) hook \<Rightarrow> ('m, 'x) hook" where
  "reconnect_if_down s = (if \<not> isConnected s then connect (committed_count s) s else s)"

text \<open>A value in a template string: an absent one prints as \<open>undefined\<close>.\<close>

definition js_str :: "string option \<Rightarrow> string" where
  "js_str x = (case x of None \<Rightarrow> ''undefined'' | Some v \<Rightarrow> v)"

text \<open>
  The \<open>try\<close> block of \<open>onmessage\<close>: the state where it ended and the exception that ended
  it, if any. \<open>handleDashboardUpdate\<close> throws on an absent payload (it reads
  \<open>data.positions\<close>); \<open>addAlert\<close> takes whatever it is given, and the read of
  \<open>data.data.priority\<close> after it throws on an absent payload. The display options of the
  toasts are left out.
\<close>

definition onmessage_try :: "'x frame \<Rightarrow> ('m, 'x) hook \<Rightarrow> ('m, 'x) hook \<times> js_error option" where
  "onmessage_try f s =
     (case f of
        Unparseable \<Rightarrow> (s, Some SyntaxError)
      | Parsed JsonNull \<Rightarrow> (s\<lparr> lastMessage := Some JsonNull \<rparr>, Some TypeError)
      | Parsed (JsonValue ty d msg) \<Rightarrow>
          let s1 = s\<lparr> lastMessage := Some (JsonValue ty d msg) \<rparr>
          in if ty = Some ''dashboard_update'' then
               (s1\<lparr> calls := calls s1 @ [HandleDashboardUpdate d] \<rparr>,
                if d = None then Some TypeError else None)
             else if ty = Some ''alert'' then
               (case d of
                  None \<Rightarrow> (s1\<lparr> calls := calls s1 @ [AddAlertCall None] \<rparr>, Some TypeError)
                | Some p \<Rightarrow>
                    let s2 = s1\<lparr> calls := calls s1 @ [AddAlertCall (Some p)] \<rparr>;
                        s3 = (if payload_priority p = Some ''critical'' then playAlertSound ''error'' s2
                              else if payload_priority p = Some ''high'' then playAlertSound ''warning'' s2
                              else if payload_type p = Some ''signal'' then playAlertSound ''signal'' s2
                              else playAlertSound ''success'' s2)
                    in (if payload_priority p = Some ''critical'' \<or> payload_priority p = Some ''high''
                        then s3\<lparr> calls := calls s3 @ [Toast (ToastError (payload_message p))] \<rparr>
                        else s3\<lparr> calls := calls s3 @ [Toast (ToastSuccess (payload_message p))] \<rparr>,
                        None))
             else if ty = Some ''position_update'' then (s1, None)
             else if ty = Some ''trade_executed'' then
               (case d of
                  None \<Rightarrow> (s1, Some TypeError)
                | Some p \<Rightarrow>
                    (playAlertSound ''success''
                       (s1\<lparr> calls := calls s1 @
                            [Toast (ToastSuccess (Some (''Trade executed: '' @ js_str (payload_symbol p)
                                                        @ '' '' @ js_str (payload_side p))))] \<rparr>),
                     None))
             else if ty = Some ''pong'' then (s1, None)
             else if ty = Some ''error'' then
               (playAlertSound ''error''
                  (s1\<lparr> calls := calls s1 @ [Toast (ToastError (Some (''Error: '' @ js_str msg)))] \<rparr>),
                None)
             else (s1\<lparr> calls := calls s1 @ [ConsoleLog ''Unhandled message type:'' ty] \<rparr>, None))"

text \<open>
  \<open>onmessage\<close>: the \<open>try\<close> block and its \<open>catch\<close>, which logs. The second component is the
  exception that leaves the handler.
\<close>

definition onmessage :: "'x frame \<Rightarrow> ('m, 'x) hook \<Rightarrow> ('m, 'x) hook \<times> js_error option" where
  "onmessage f s =
     (case onmessage_try f s of
        (s1, Some e) \<Rightarrow>
          (s1\<lparr> calls := calls s1 @ [ConsoleError ''Failed to parse WebSocket message:''] \<rparr>, None)
      | (s1, None) \<Rightarrow> (s1, None))"

subsection \<open>Events\<close>

text \<open>
  After a callback has run, React renders again. \<open>connect\<close> is a \<open>useCallback\<close> with
  \<open>reconnectCount\<close> and, through \<open>playAlertSound\<close>, \<open>soundEnabled\<close> among its dependencies,
  and the mount effect depends on \<open>connect\<close>: when one of the two has changed, the effect's
  cleanup calls \<open>disconnect\<close> and the effect calls the new \<open>connect\<close>.
\<close>

definition commit :: "('m, 'x) hook \<Rightarrow> ('m, 'x) hook" where
  "commit s =
     (if reconnectCount s = committed_count s \<and> soundEnabled s = committed_sound s then s
      else connect (reconnectCount s)
             ((disconnect s)\<lparr> committed_count := reconnectCount s,
                              committed_sound := soundEnabled s \<rparr>))"

text \<open>The first render and its effect.\<close>

definition mount :: "('m, 'x) hook \<Rightarrow> ('m, 'x) hook" where
  "mount s =
     connect (reconnectCount s)
       (s\<lparr> committed_count := reconnectCount s, committed_sound := soundEnabled s \<rparr>)"

text \<open>An exception that leaves a handler is reported by the browser; the page goes on.\<close>

definition finish :: "('m, 'x) hook \<times> js_error option \<Rightarrow> ('m, 'x) hook" where
  "finish r = (case r of (s, None) \<Rightarrow> s | (s, Some e) \<Rightarrow> s\<lparr> uncaught := uncaught s @ [e] \<rparr>)"

text \<open>
  The events. Every socket made keeps its handlers, so each of them can open, close and
  receive frames, whether \<open>wsRef\<close> still holds it or not. A socket that closes before it was
  ever open reports code 1006, whatever was asked of it: no close frame can have been
  exchanged. Any pending timeout and any running interval can fire. The application can
  call \<open>sendMessage\<close>, \<open>disconnect\<close> and \<open>connect\<close>, which the hook returns; the page can become
  visible and the network can come back; the sound preference can change in the store.
  An event that cannot happen in the state leaves it as it is.
\<close>

datatype ('m, 'x) event =
    SocketOpens nat
  | SocketCloses nat nat
  | FrameArrives nat "'x frame"
  | TimeoutFires nat
  | IntervalFires nat
  | CallSendMessage 'm
  | CallDisconnect
  | CallConnect
  | PageVisible
  | NetworkOnline
  | SoundToggled bool

fun step :: "('m, 'x) event \<Rightarrow> ('m, 'x) hook \<Rightarrow> ('m, 'x) hook" where
  "step (SocketOpens i) s =
     (if i < length (sockets s) \<and> readyState (sockets s ! i) = CONNECTING
      then commit (finish (onopen
             (s\<lparr> sockets := (sockets s)[i := (sockets s ! i)\<lparr> readyState := OPEN,
                                                                established := True \<rparr>] \<rparr>)))
      else s)"
| "step (SocketCloses i code) s =
     (if i < length (sockets s) \<and> readyState (sockets s ! i) \<noteq> CLOSED
      then commit (onclose (closure_count (sockets s ! i))
                     (if established (sockets s ! i) then code else 1006)
                     (s\<lparr> sockets := (sockets s)[i := (sockets s ! i)\<lparr> readyState := CLOSED \<rparr>] \<rparr>))
      else s)"
| "step (FrameArrives i f) s =
     (if i < length (sockets s) \<and> readyState (sockets s ! i) = OPEN
      then commit (finish (onmessage f s))
      else s)"
| "step (TimeoutFires h) s =
     (case find (\<lambda>t. fst t = h) (timeouts s) of
        None \<Rightarrow> s
      | Some (h', delay, rc) \<Rightarrow>
          commit (reconnect_callback rc
                    (s\<lparr> timeouts := filter (\<lambda>t. fst t \<noteq> h) (timeouts s) \<rparr>)))"
| "step (IntervalFires h) s = (if h \<in> set (intervals s) then heartbeat s else s)"
| "step (CallSendMessage m) s = sendMessage m s"
| "step CallDisconnect s = disconnect s"
| "step CallConnect s = connect (committed_count s) s"
| "step PageVisible s = reconnect_if_down s"
| "step NetworkOnline s = reconnect_if_down s"
| "step (SoundToggled b) s = commit (s\<lparr> soundEnabled := b \<rparr>)"

fun run :: "('m, 'x) event list \<Rightarrow> ('m, 'x) hook \<Rightarrow> ('m, 'x) hook" where
  "run [] s = s"
| "run (e # es) s = run es (step e s)"

text \<open>
  The delays of the timeouts set, the frames sent and the sockets made, in the order of
  the calls.
\<close>

fun scheduled_delays :: "'m platform_call list \<Rightarrow> nat list" where
  "scheduled_delays [] = []"
| "scheduled_delays (SetTimeout h d # cs) = d # scheduled_delays cs"
| "scheduled_delays (c # cs) = scheduled_delays cs"

fun sent :: "'m platform_call list \<Rightarrow> 'm wire_out list" where
  "sent [] = []"
| "sent (Send i m # cs) = m # sent cs"
| "sent (c # cs) = sent cs"

fun sockets_made :: "'m platform_call list \<Rightarrow> nat list" where
  "sockets_made [] = []"
| "sockets_made (NewWebSocket i # cs) = i # sockets_made cs"
| "sockets_made (c # cs) = sockets_made cs"

section \<open>Sample data\<close>

definition alert1 :: "nat alert" where
  "alert1 = \<lparr> alert_id = 1, message = ''BTC breakout'', alert_type = ''signal'',
              priority = ''high'', timestamp = ''2024-01-01T00:00:00Z'', read = False \<rparr>"

definition alert2 :: "nat alert" where
  "alert2 = \<lparr> alert_id = 2, message = ''Margin low'', alert_type = ''warning'',
              priority = ''critical'', timestamp = ''2024-01-01T00:01:00Z'', read = False \<rparr>"

text \<open>A store whose trade history is full: trades 999 down to 0, newest first.\<close>

definition full_history :: "(nat, nat) store" where
  "full_history = initial_store\<lparr> trades := rev [0..<1000] \<rparr>"

definition performance_ab :: "(nat, nat) store" where
  "performance_ab = initial_store\<lparr> performance := [''a'' \<mapsto> 1, ''b'' \<mapsto> 2] \<rparr>"

definition update_b :: "nat dashboard_data" where
  "update_b = \<lparr> data_positions = None, data_performance = Some [''b'' \<mapsto> 5],
                data_volatility = None, data_prices = None, data_signals = None,
                data_equity_curve = None, data_timestamp = Some ''2024-01-01T00:02:00Z'' \<rparr>"

definition update_none :: "nat dashboard_data" where
  "update_none = \<lparr> data_positions = Some [7], data_performance = None,
                   data_volatility = None, data_prices = None, data_signals = None,
                   data_equity_curve = None, data_timestamp = None \<rparr>"

text \<open>
  Four runs of the hook after the mount. In the first, every connection attempt fails:
  socket 0 closes, the timeout fires, and the two sockets made then (socket 1 by the
  callback's \<open>connect\<close>, closed at once by the effect's cleanup, and socket 2 by the effect)
  close in turn. In the second, three messages are submitted while socket 0 is connecting,
  the page becomes visible, and socket 0, then socket 1, opens. In the third, \<open>disconnect\<close>
  is called twice while socket 0 is connecting, the close event of socket 0 arrives and
  the timeout fires. In the fourth, socket 0 fails, the page becomes visible while the
  timeout is pending, socket 1 fails too, \<open>disconnect\<close> is called twice and the first
  timeout fires.
\<close>

definition failing_attempts :: "(string, unit) event list" where
  "failing_attempts =
     [SocketCloses 0 1006, TimeoutFires 1, SocketCloses 1 1006, SocketCloses 2 1006]"

definition sends_then_visible :: "(string, unit) event list" where
  "sends_then_visible =
     [CallSendMessage ''subscribe'', CallSendMessage ''force_update'',
      CallSendMessage ''clear_alerts'', PageVisible, SocketOpens 0, SocketOpens 1]"

definition disconnect_while_connecting :: "(string, unit) event list" where
  "disconnect_while_connecting =
     [CallDisconnect, CallDisconnect, SocketCloses 0 1006, TimeoutFires 1]"

definition disconnect_with_two_timeouts :: "(string, unit) event list" where
  "disconnect_with_two_timeouts =
     [SocketCloses 0 1006, PageVisible, SocketCloses 1 1006, CallDisconnect, CallDisconnect,
      TimeoutFires 1]"

section \<open>Properties of the store\<close>

subsection \<open>The unread counter\<close>

lemma run_alert_ops_nonneg:
  "0 \<le> unreadAlerts s \<Longrightarrow> 0 \<le> unreadAlerts (run_alert_ops ops s)"
proof (induction ops arbitrary: s)
  case Nil
  then show ?case by simp
next
  case (Cons x ops)
  have "0 \<le> unreadAlerts (apply_alert_op x s)"
    using Cons.prems by (cases x) (simp_all add: addAlert_def markAlertRead_def clearAllAlerts_def)
  then show ?case using Cons.IH by simp
qed

text \<open>
  C10. Starting from the initial state, after every sequence of \<open>addAlert\<close>,
  \<open>markAlertRead\<close> and \<open>clearAllAlerts\<close> the counter \<open>unreadAlerts\<close> is at least 0.
\<close>

theorem unreadAlerts_never_negative:
  "0 \<le> unreadAlerts (run_alert_ops ops (initial_store :: ('i, 'v) store))"
  by (rule run_alert_ops_nonneg) (simp add: initial_store_def)

text \<open>
  C1. The counter is meant to equal the number of unread alerts after every operation. It
  does not: \<open>markAlertRead\<close> lowers the counter whether or not the alert was unread. After
  two alerts are added and the first is marked read twice, one alert is still unread and
  the counter is 0.
\<close>

theorem unread_counter_drifts:
  "unreadAlerts (run_alert_ops [AddAlert alert1, AddAlert alert2, MarkAlertRead 1, MarkAlertRead 1]
                   (initial_store :: (nat, nat) store)) = 0
   \<and> unread_count (run_alert_ops [AddAlert alert1, AddAlert alert2, MarkAlertRead 1, MarkAlertRead 1]
                     (initial_store :: (nat, nat) store)) = 1"
  by (simp add: initial_store_def addAlert_def markAlertRead_def unread_count_def
      alert1_def alert2_def)

text \<open>The list of alerts is the same after one or two calls of \<open>markAlertRead\<close>.\<close>

lemma markAlertRead_alerts_idem:
  "alerts (markAlertRead i (markAlertRead i s)) = alerts (markAlertRead i s)"
  by (simp add: markAlertRead_def)

text \<open>
  C6. Marking the same alert read twice is meant to give the state that marking it once
  gives. The counter differs: with two unread alerts, one call leaves 1 and two calls
  leave 0.
\<close>

theorem markAlertRead_twice_differs:
  "unreadAlerts (markAlertRead 1 (addAlert alert2 (addAlert alert1 (initial_store :: (nat, nat) store)))) = 1
   \<and> unreadAlerts (markAlertRead 1 (markAlertRead 1
        (addAlert alert2 (addAlert alert1 (initial_store :: (nat, nat) store))))) = 0
   \<and> markAlertRead 1 (markAlertRead 1 (addAlert alert2 (addAlert alert1 (initial_store :: (nat, nat) store))))
       \<noteq> markAlertRead 1 (addAlert alert2 (addAlert alert1 (initial_store :: (nat, nat) store)))"
proof -
  let ?s = "addAlert alert2 (addAlert alert1 (initial_store :: (nat, nat) store))"
  have one: "unreadAlerts (markAlertRead 1 ?s) = 1"
    by (simp add: initial_store_def addAlert_def markAlertRead_def)
  have two: "unreadAlerts (markAlertRead 1 (markAlertRead 1 ?s)) = 0"
    by (simp add: initial_store_def addAlert_def markAlertRead_def)
  have "markAlertRead 1 (markAlertRead 1 ?s) \<noteq> markAlertRead 1 ?s"
  proof
    assume "markAlertRead 1 (markAlertRead 1 ?s) = markAlertRead 1 ?s"
    then have "unreadAlerts (markAlertRead 1 (markAlertRead 1 ?s)) = unreadAlerts (markAlertRead 1 ?s)"
      by simp
    then show False unfolding one two by simp
  qed
  then show ?thesis using one two by simp
qed

subsection \<open>The trade history\<close>

lemma take_cons_take:
  "n \<le> Suc k \<Longrightarrow> take n (t # take k ys) = take n (t # ys)"
  by (cases n) simp_all

lemma take_rest_cons_take:
  "take (1000 - n) (t # take 999 ys) = take (1000 - n) (t # ys)"
  by (rule take_cons_take) simp

lemma add_trades_trades:
  "trades (add_trades ts s) = take (if ts = [] then length (trades s) else 1000) (rev ts @ trades s)"
proof (induction ts arbitrary: s)
  case Nil
  then show ?case by simp
next
  case (Cons t ts)
  show ?case
  proof (cases "ts = []")
    case True
    have "t # take 999 (trades s) = take 1000 (t # trades s)" by simp
    then show ?thesis using True by (simp add: addTrade_def)
  next
    case False
    then show ?thesis using Cons.IH[of "addTrade t s"]
      by (simp add: addTrade_def take_rest_cons_take)
  qed
qed

text \<open>
  C3. \<open>addTrade\<close> puts the new trade at the head; a list of fewer than 1000 trades keeps all
  its entries behind it, a list of 1000 loses exactly its last one; the list never has
  more than 1000 entries after \<open>addTrade\<close>, and after any sequence of \<open>addTrade\<close> from the
  initial state it holds the last 1000 trades, newest first.
\<close>

theorem addTrade_bounded_history:
  "hd (trades (addTrade t s)) = t
   \<and> (length (trades s) < 1000 \<longrightarrow> trades (addTrade t s) = t # trades s)
   \<and> (length (trades s) = 1000 \<longrightarrow> trades (addTrade t s) = t # butlast (trades s))
   \<and> length (trades (addTrade t s)) \<le> 1000
   \<and> length (trades (add_trades ts (initial_store :: ('i, 'v) store))) \<le> 1000
   \<and> trades (add_trades ts (initial_store :: ('i, 'v) store)) = take 1000 (rev ts)"
proof -
  have a: "hd (trades (addTrade t s)) = t" by (simp add: addTrade_def)
  have b: "trades (addTrade t s) = t # trades s" if "length (trades s) < 1000"
    using that by (simp add: addTrade_def)
  have c: "trades (addTrade t s) = t # butlast (trades s)" if "length (trades s) = 1000"
    using that by (simp add: addTrade_def butlast_conv_take)
  have d: "length (trades (addTrade t s)) \<le> 1000" by (simp add: addTrade_def)
  have f: "trades (add_trades ts (initial_store :: ('i, 'v) store)) = take 1000 (rev ts)"
    by (simp add: add_trades_trades initial_store_def)
  have e: "length (trades (add_trades ts (initial_store :: ('i, 'v) store))) \<le> 1000"
    unfolding f by simp
  from a b c d e f show ?thesis by blast
qed

theorem addTrade_bounded_history_witness:
  "length (trades full_history) = 1000
   \<and> trades (addTrade 1000 full_history) = 1000 # butlast (trades full_history)
   \<and> length (trades (initial_store :: (nat, nat) store)) < 1000
   \<and> trades (addTrade 7 (initial_store :: (nat, nat) store)) = [7]"
proof -
  have full: "length (trades full_history) = 1000"
    by (simp add: full_history_def)
  have empty: "trades (initial_store :: (nat, nat) store) = []"
    by (simp add: initial_store_def)
  have small: "length (trades (initial_store :: (nat, nat) store)) < 1000"
    unfolding empty by simp
  note at_full = addTrade_bounded_history[of 1000 full_history "[]"]
  note at_empty = addTrade_bounded_history[of 7 "initial_store :: (nat, nat) store" "[]"]
  have r1: "trades (addTrade 1000 full_history) = 1000 # butlast (trades full_history)"
    using at_full full by blast
  have "trades (addTrade 7 (initial_store :: (nat, nat) store)) = 7 # trades (initial_store :: (nat, nat) store)"
    using at_empty small by blast
  then have r2: "trades (addTrade 7 (initial_store :: (nat, nat) store)) = [7]"
    unfolding empty .
  from full r1 small r2 show ?thesis by blast
qed

subsection \<open>The performance record\<close>

text \<open>
  C4. In a bulk update and in \<open>updatePerformance\<close>, a performance field that the update does
  not contain keeps its value and a field it contains takes the new one; an update
  without a performance object leaves the record as it is. With performance
  \<open>{a: 1, b: 2}\<close> and an update holding only \<open>{b: 5}\<close> the result is \<open>{a: 1, b: 5}\<close>.
\<close>

theorem partial_merge:
  "(data_performance d = Some p \<longrightarrow>
      (k \<notin> dom p \<longrightarrow> performance (handleDashboardUpdate d s) k = performance s k)
    \<and> (k \<in> dom p \<longrightarrow> performance (handleDashboardUpdate d s) k = p k))
   \<and> (data_performance d = None \<longrightarrow> performance (handleDashboardUpdate d s) = performance s)
   \<and> (k \<notin> dom p \<longrightarrow> performance (updatePerformance p s) k = performance s k)
   \<and> (k \<in> dom p \<longrightarrow> performance (updatePerformance p s) k = p k)
   \<and> (performance s = [''a'' \<mapsto> 1, ''b'' \<mapsto> 2] \<and> data_performance d = Some [''b'' \<mapsto> 5] \<longrightarrow>
        performance (handleDashboardUpdate d s) = [''a'' \<mapsto> 1, ''b'' \<mapsto> 5])"
  by (auto simp: handleDashboardUpdate_def updatePerformance_def map_add_def dom_def
      split: option.splits)

theorem partial_merge_witness:
  "performance performance_ab = [''a'' \<mapsto> 1, ''b'' \<mapsto> 2]
   \<and> data_performance update_b = Some [''b'' \<mapsto> 5]
   \<and> ''a'' \<notin> dom [''b'' \<mapsto> (5 :: real)]
   \<and> ''b'' \<in> dom [''b'' \<mapsto> (5 :: real)]
   \<and> performance (handleDashboardUpdate update_b performance_ab) ''a'' = Some 1
   \<and> performance (handleDashboardUpdate update_b performance_ab) ''b'' = Some 5
   \<and> performance (handleDashboardUpdate update_b performance_ab) = [''a'' \<mapsto> 1, ''b'' \<mapsto> 5]
   \<and> performance (updatePerformance [''b'' \<mapsto> 5] performance_ab) ''a'' = Some 1
   \<and> performance (updatePerformance [''b'' \<mapsto> 5] performance_ab) ''b'' = Some 5
   \<and> data_performance update_none = None
   \<and> performance (handleDashboardUpdate update_none performance_ab) = performance performance_ab"
proof -
  have s: "performance performance_ab = [''a'' \<mapsto> 1, ''b'' \<mapsto> 2]"
    by (simp add: performance_ab_def)
  have d: "data_performance update_b = Some [''b'' \<mapsto> 5]"
    by (simp add: update_b_def)
  have n: "data_performance update_none = None"
    by (simp add: update_none_def)
  have a: "''a'' \<notin> dom [''b'' \<mapsto> (5 :: real)]" by simp
  have b: "''b'' \<in> dom [''b'' \<mapsto> (5 :: real)]" by simp
  have sa: "performance performance_ab ''a'' = Some 1" unfolding s by simp
  have pb: "[''b'' \<mapsto> (5 :: real)] ''b'' = Some 5" by simp
  note at_a = partial_merge[of update_b "[''b'' \<mapsto> 5]" "''a''" performance_ab]
  note at_b = partial_merge[of update_b "[''b'' \<mapsto> 5]" "''b''" performance_ab]
  note at_n = partial_merge[of update_none "[''b'' \<mapsto> 5]" "''a''" performance_ab]
  have r1: "performance (handleDashboardUpdate update_b performance_ab) ''a'' = Some 1"
    using at_a d a sa by simp
  have r2: "performance (handleDashboardUpdate update_b performance_ab) ''b'' = Some 5"
    using at_b d b pb by simp
  have r3: "performance (handleDashboardUpdate update_b performance_ab) = [''a'' \<mapsto> 1, ''b'' \<mapsto> 5]"
    using at_a s d by blast
  have r4: "performance (updatePerformance [''b'' \<mapsto> 5] performance_ab) ''a'' = Some 1"
    using at_a a sa by simp
  have r5: "performance (updatePerformance [''b'' \<mapsto> 5] performance_ab) ''b'' = Some 5"
    using at_b b pb by simp
  have r6: "performance (handleDashboardUpdate update_none performance_ab) = performance performance_ab"
    using at_n n by blast
  from s d a b r1 r2 r3 r4 r5 n r6 show ?thesis by blast
qed

subsection \<open>The risk level\<close>

text \<open>
  C8. With margin level \<open>ml\<close> and current drawdown \<open>dd\<close> in the performance record,
  \<open>getRiskLevel\<close> is \<open>high\<close> if \<open>ml < 150\<close> or \<open>dd > 15\<close>, otherwise \<open>medium\<close> if \<open>ml < 300\<close> or
  \<open>dd > 10\<close>, otherwise \<open>low\<close>.
\<close>

theorem getRiskLevel_classification:
  assumes "performance s ''margin_level'' = Some ml"
    and "performance s ''current_drawdown'' = Some dd"
  shows "getRiskLevel s =
           (if ml < 150 \<or> dd > 15 then ''high''
            else if ml < 300 \<or> dd > 10 then ''medium'' else ''low'')
       \<and> (getRiskLevel s = ''high'' \<longleftrightarrow> ml < 150 \<or> dd > 15)
       \<and> (getRiskLevel s = ''medium'' \<longleftrightarrow> 150 \<le> ml \<and> dd \<le> 15 \<and> (ml < 300 \<or> dd > 10))
       \<and> (getRiskLevel s = ''low'' \<longleftrightarrow> 300 \<le> ml \<and> dd \<le> 10)"
  using assms by (auto simp: getRiskLevel_def js_less_def js_greater_def)

theorem getRiskLevel_classification_witness:
  "performance (initial_store :: (nat, nat) store) ''margin_level'' = Some 100
   \<and> performance (initial_store :: (nat, nat) store) ''current_drawdown'' = Some 0
   \<and> getRiskLevel (initial_store :: (nat, nat) store) = ''high''
   \<and> performance (updatePerformance [''margin_level'' \<mapsto> 350] (initial_store :: (nat, nat) store))
        ''margin_level'' = Some 350
   \<and> performance (updatePerformance [''margin_level'' \<mapsto> 350] (initial_store :: (nat, nat) store))
        ''current_drawdown'' = Some 0
   \<and> getRiskLevel (updatePerformance [''margin_level'' \<mapsto> 350] (initial_store :: (nat, nat) store))
        = ''low''"
proof -
  let ?s = "updatePerformance [''margin_level'' \<mapsto> 350] (initial_store :: (nat, nat) store)"
  have ml: "performance (initial_store :: (nat, nat) store) ''margin_level'' = Some 100"
    by (simp add: initial_store_def initial_performance_def)
  have dd: "performance (initial_store :: (nat, nat) store) ''current_drawdown'' = Some 0"
    by (simp add: initial_store_def initial_performance_def)
  have ml2: "performance ?s ''margin_level'' = Some 350"
    by (simp add: updatePerformance_def)
  have dd2: "performance ?s ''current_drawdown'' = Some 0"
    by (simp add: updatePerformance_def initial_store_def initial_performance_def)
  have r1: "getRiskLevel (initial_store :: (nat, nat) store) = ''high''"
    using getRiskLevel_classification[OF ml dd] by simp
  have r2: "getRiskLevel ?s = ''low''"
    using getRiskLevel_classification[OF ml2 dd2] by simp
  from ml dd r1 ml2 dd2 r2 show ?thesis by blast
qed


section \<open>Properties of the hook\<close>

lemmas hook_defs =
  mount_def initial_hook_def connect_def ws_open_def current_def onclose_def
  clear_heartbeat_def commit_def reconnect_callback_def disconnect_def close_socket_def
  onopen_def finish_def sendMessage_def reconnect_if_down_def heartbeat_def Let_def

subsection \<open>Reconnection\<close>

lemma scheduled_delays_append:
  "scheduled_delays (xs @ ys) = scheduled_delays xs @ scheduled_delays ys"
  by (induction xs rule: scheduled_delays.induct) simp_all

lemma clear_heartbeat_delays:
  "scheduled_delays (platform (clear_heartbeat s)) = scheduled_delays (platform s)"
  by (simp add: clear_heartbeat_def scheduled_delays_append split: option.splits)

text \<open>The delay that one \<open>onclose\<close> sets is the capped power of the count in its closure.\<close>

lemma onclose_delay:
  "code \<noteq> 1000 \<Longrightarrow> code \<noteq> 1001 \<Longrightarrow>
   scheduled_delays (platform (onclose rc code s))
     = scheduled_delays (platform s) @ [min (1000 * 2 ^ rc) 30000]"
  by (simp add: onclose_def Let_def scheduled_delays_append clear_heartbeat_delays)

text \<open>
  C2. The delays of consecutive abnormal closures are meant to be 1000, 2000, 4000, ...
  They are not. When the first timeout fires, its callback calls the \<open>connect\<close> of the old
  render, which makes socket 1 with the old count in its closure; the effect's cleanup
  closes socket 1 while it is connecting, and the effect makes socket 2. The close event
  of socket 1 still runs its \<open>onclose\<close>, which sets a timeout of 1000 ms again. After three
  closures, all with code 1006, the delays set are 1000, 1000, 2000.
\<close>

theorem backoff_repeats_delay:
  "scheduled_delays (platform (run failing_attempts (mount initial_hook))) = [1000, 1000, 2000]
   \<and> sockets_made (platform (run failing_attempts (mount initial_hook))) = [0, 1, 2]
   \<and> map closure_count (sockets (run failing_attempts (mount initial_hook))) = [0, 0, 1]
   \<and> map readyState (sockets (run failing_attempts (mount initial_hook))) = [CLOSED, CLOSED, CLOSED]
   \<and> reconnectCount (run failing_attempts (mount initial_hook)) = 1"
  by (simp add: failing_attempts_def hook_defs)

subsection \<open>Inbound frames\<close>

lemma onmessage_try_only_logs:
  "fst (onmessage_try f s) =
     s\<lparr> lastMessage := lastMessage (fst (onmessage_try f s)),
        calls := calls (fst (onmessage_try f s)) \<rparr>"
proof (cases f)
  case Unparseable
  then show ?thesis by (simp add: onmessage_try_def)
next
  case (Parsed v)
  show ?thesis
  proof (cases v)
    case JsonNull
    then show ?thesis using Parsed by (simp add: onmessage_try_def)
  next
    case (JsonValue ty d msg)
    then show ?thesis using Parsed
      by (simp add: onmessage_try_def Let_def playAlertSound_def split: option.splits)
  qed
qed

lemma only_logsI:
  "x = s\<lparr> lastMessage := a, calls := b \<rparr> \<Longrightarrow>
   x = s\<lparr> lastMessage := lastMessage x, calls := calls x \<rparr>"
  by simp

lemma onmessage_only_logs:
  "fst (onmessage f s) =
     s\<lparr> lastMessage := lastMessage (fst (onmessage f s)), calls := calls (fst (onmessage f s)) \<rparr>"
proof -
  obtain s1 e where r: "onmessage_try f s = (s1, e)" by (cases "onmessage_try f s")
  have s1: "s1 = s\<lparr> lastMessage := lastMessage s1, calls := calls s1 \<rparr>"
    using onmessage_try_only_logs[of f s] r by simp
  show ?thesis
  proof (cases e)
    case None
    then show ?thesis using r s1 by (simp add: onmessage_def)
  next
    case (Some err)
    have "fst (onmessage f s) = s1\<lparr> calls := calls s1 @ [ConsoleError ''Failed to parse WebSocket message:''] \<rparr>"
      using r Some by (simp add: onmessage_def)
    also have "\<dots> = s\<lparr> lastMessage := lastMessage s1,
                        calls := calls s1 @ [ConsoleError ''Failed to parse WebSocket message:''] \<rparr>"
      by (subst s1) simp
    finally show ?thesis by (rule only_logsI)
  qed
qed


lemma onmessage_no_exception: "snd (onmessage f s) = None"
  by (cases "onmessage_try f s") (simp add: onmessage_def split: option.splits)

lemma uncaught_connect: "uncaught (connect rc s) = uncaught s"
  by (simp add: connect_def)

lemma uncaught_disconnect: "uncaught (disconnect s) = uncaught s"
  by (simp add: disconnect_def close_socket_def clear_heartbeat_def Let_def split: option.splits)

lemma uncaught_commit: "uncaught (commit s) = uncaught s"
  by (simp add: commit_def uncaught_connect uncaught_disconnect)

lemma uncaught_frame: "uncaught (step (FrameArrives i f) s) = uncaught s"
proof (cases "i < length (sockets s) \<and> readyState (sockets s ! i) = OPEN")
  case True
  have u: "uncaught (fst (onmessage f s)) = uncaught s"
    by (subst onmessage_only_logs) simp
  obtain s1 where r: "onmessage f s = (s1, None)"
    using onmessage_no_exception[of f s] by (cases "onmessage f s") simp
  then show ?thesis using True u by (simp add: finish_def uncaught_commit)
next
  case False
  then show ?thesis by auto
qed

text \<open>
  C9. No exception leaves \<open>onmessage\<close>, whatever the frame, and the handler changes nothing
  but \<open>lastMessage\<close> and the log of calls, so the connection is as it was. A frame that
  does not parse is logged with \<open>console.error\<close> and nothing else happens; a parsed message
  whose type is none of the six known ones is logged as unhandled, and no store action,
  toast or sound follows.
\<close>

theorem onmessage_never_throws:
  "snd (onmessage f s) = None
   \<and> fst (onmessage f s) =
       s\<lparr> lastMessage := lastMessage (fst (onmessage f s)), calls := calls (fst (onmessage f s)) \<rparr>
   \<and> fst (onmessage Unparseable s) =
       s\<lparr> calls := calls s @ [ConsoleError ''Failed to parse WebSocket message:''] \<rparr>
   \<and> (ty \<noteq> Some ''dashboard_update'' \<and> ty \<noteq> Some ''alert'' \<and> ty \<noteq> Some ''position_update''
      \<and> ty \<noteq> Some ''trade_executed'' \<and> ty \<noteq> Some ''pong'' \<and> ty \<noteq> Some ''error'' \<longrightarrow>
      fst (onmessage (Parsed (JsonValue ty d msg)) s) =
        s\<lparr> lastMessage := Some (JsonValue ty d msg),
           calls := calls s @ [ConsoleLog ''Unhandled message type:'' ty] \<rparr>)
   \<and> uncaught (step (FrameArrives i f) s) = uncaught s"
proof -
  have b: "fst (onmessage Unparseable s) =
       s\<lparr> calls := calls s @ [ConsoleError ''Failed to parse WebSocket message:''] \<rparr>"
    by (simp add: onmessage_def onmessage_try_def)
  have c: "fst (onmessage (Parsed (JsonValue ty d msg)) s) =
        s\<lparr> lastMessage := Some (JsonValue ty d msg),
           calls := calls s @ [ConsoleLog ''Unhandled message type:'' ty] \<rparr>"
    if "ty \<noteq> Some ''dashboard_update'' \<and> ty \<noteq> Some ''alert'' \<and> ty \<noteq> Some ''position_update''
      \<and> ty \<noteq> Some ''trade_executed'' \<and> ty \<noteq> Some ''pong'' \<and> ty \<noteq> Some ''error''"
    using that by (simp add: onmessage_def onmessage_try_def Let_def)
  from onmessage_no_exception[of f s] onmessage_only_logs[of f s] b c uncaught_frame[of i f s]
  show ?thesis by blast
qed

theorem onmessage_never_throws_witness:
  "Some ''ticker'' \<noteq> Some ''dashboard_update'' \<and> Some ''ticker'' \<noteq> Some ''alert''
   \<and> Some ''ticker'' \<noteq> Some ''position_update'' \<and> Some ''ticker'' \<noteq> Some ''trade_executed''
   \<and> Some ''ticker'' \<noteq> Some ''pong'' \<and> Some ''ticker'' \<noteq> Some ''error''
   \<and> fst (onmessage (Parsed (JsonValue (Some ''ticker'') None None)) (initial_hook :: (unit, unit) hook))
       = initial_hook\<lparr> lastMessage := Some (JsonValue (Some ''ticker'') None None),
                       calls := [ConsoleLog ''Unhandled message type:'' (Some ''ticker'')] \<rparr>"
proof -
  have h: "Some ''ticker'' \<noteq> Some ''dashboard_update'' \<and> Some ''ticker'' \<noteq> Some ''alert''
   \<and> Some ''ticker'' \<noteq> Some ''position_update'' \<and> Some ''ticker'' \<noteq> Some ''trade_executed''
   \<and> Some ''ticker'' \<noteq> Some ''pong'' \<and> Some ''ticker'' \<noteq> Some ''error''"
    by simp
  have e: "calls (initial_hook :: (unit, unit) hook) = []"
    by (simp add: initial_hook_def)
  note th = onmessage_never_throws[where f = Unparseable
      and s = "initial_hook :: (unit, unit) hook" and ty = "Some ''ticker''" and d = None
      and msg = None and i = 0]
  have "fst (onmessage (Parsed (JsonValue (Some ''ticker'') None None)) (initial_hook :: (unit, unit) hook))
       = initial_hook\<lparr> lastMessage := Some (JsonValue (Some ''ticker'') None None),
                       calls := calls (initial_hook :: (unit, unit) hook)
                                  @ [ConsoleLog ''Unhandled message type:'' (Some ''ticker'')] \<rparr>"
    using th h by blast
  then show ?thesis using h unfolding e by simp
qed

subsection \<open>The outbound queue\<close>

text \<open>While the socket held is not open, \<open>sendMessage\<close> only appends to the queue.\<close>

lemma current_queue: "current (s\<lparr> messageQueueRef := q \<rparr>) = current s"
  by (cases "wsRef s") (simp_all add: current_def)

lemma sendMessage_queued:
  "\<not> ws_open s \<Longrightarrow> sendMessage m s = s\<lparr> messageQueueRef := messageQueueRef s @ [m] \<rparr>"
  by (auto simp: sendMessage_def ws_open_def split: option.splits)

lemma send_all_queued:
  "\<not> ws_open s \<Longrightarrow>
   run (map CallSendMessage ms) s = s\<lparr> messageQueueRef := messageQueueRef s @ ms \<rparr>"
proof (induction ms arbitrary: s)
  case Nil
  then show ?case by simp
next
  case (Cons m ms)
  let ?s1 = "s\<lparr> messageQueueRef := messageQueueRef s @ [m] \<rparr>"
  have "\<not> ws_open ?s1" using Cons.prems by (simp add: ws_open_def current_queue)
  from Cons.IH[OF this] show ?case using Cons.prems by (simp add: sendMessage_queued)
qed

text \<open>
  C5. Messages submitted while the socket is not open are meant to be sent in the order
  of submission when a socket next opens, none dropped and no exception raised. The
  queueing does that; the sending does not. \<open>onopen\<close> sends through \<open>wsRef.current\<close>, and
  \<open>connect\<close> replaces a connecting socket without closing it. Three messages are queued
  while socket 0 is connecting; the page becomes visible and the listener's \<open>connect\<close> puts
  socket 1 in \<open>wsRef\<close>; socket 0 opens, its \<open>onopen\<close> takes the first message off the queue
  and \<open>send\<close> throws on socket 1, which is still connecting. The first message is never
  sent, and the exception leaves the handler.
\<close>

theorem replaced_socket_drops_message:
  "messageQueueRef (run (take 3 sends_then_visible) (mount initial_hook))
     = [''subscribe'', ''force_update'', ''clear_alerts'']
   \<and> sent (platform (run (take 5 sends_then_visible) (mount initial_hook))) = []
   \<and> messageQueueRef (run (take 5 sends_then_visible) (mount initial_hook))
       = [''force_update'', ''clear_alerts'']
   \<and> uncaught (run (take 5 sends_then_visible) (mount initial_hook)) = [InvalidStateError]
   \<and> sent (platform (run sends_then_visible (mount initial_hook)))
       = [Message ''force_update'', Message ''clear_alerts'']
   \<and> messageQueueRef (run sends_then_visible (mount initial_hook)) = []"
  by (simp add: sends_then_visible_def hook_defs drain_queue.simps)

subsection \<open>Disconnecting\<close>

lemma wsRef_disconnect: "wsRef (disconnect s) = None"
  by (simp add: disconnect_def close_socket_def clear_heartbeat_def Let_def split: option.splits)

lemma reconnectTimeoutRef_disconnect: "reconnectTimeoutRef (disconnect s) = None"
  by (simp add: disconnect_def close_socket_def clear_heartbeat_def Let_def split: option.splits)

lemma heartbeatIntervalRef_disconnect: "heartbeatIntervalRef (disconnect s) = None"
  by (simp add: disconnect_def close_socket_def clear_heartbeat_def Let_def split: option.splits)

lemma isConnected_disconnect: "isConnected (disconnect s) = False"
  by (simp add: disconnect_def close_socket_def clear_heartbeat_def Let_def split: option.splits)

text \<open>
  The second of two calls of \<open>disconnect\<close> in a row only repeats the store notification: it
  makes no call on the transport or the timers.
\<close>

lemma disconnect_twice:
  "disconnect (disconnect s)
     = (disconnect s)\<lparr> calls := calls (disconnect s) @ [SetConnectionStatus False] \<rparr>"
  by (simp add: disconnect_def[of "disconnect s"] wsRef_disconnect reconnectTimeoutRef_disconnect
      heartbeatIntervalRef_disconnect isConnected_disconnect clear_heartbeat_def Let_def)

text \<open>
  C7. Two calls of \<open>disconnect\<close> in a row are meant to leave no reconnection attempt
  behind. The second call does nothing new, but the first does not prevent a
  reconnection: it closes the socket and leaves the handlers on it. When the socket was
  still connecting, its close event reports 1006, \<open>onclose\<close> takes that for an abnormal
  closure and sets a timeout of 1000 ms, and when the timeout fires new sockets are made.
  Nor does it clear every pending timeout: it clears the one whose handle
  \<open>reconnectTimeoutRef\<close> holds, and \<open>onclose\<close> overwrites that handle. When two sockets have
  failed, the first timeout is still pending after \<open>disconnect\<close>, and when it fires new
  sockets are made.
\<close>

theorem disconnect_then_reconnects:
  "platform (run (take 2 disconnect_while_connecting) (mount initial_hook))
     = [NewWebSocket 0, CloseSocket 0 1000]
   \<and> wsRef (run (take 2 disconnect_while_connecting) (mount initial_hook)) = None
   \<and> timeouts (run (take 2 disconnect_while_connecting) (mount initial_hook)) = []
   \<and> timeouts (run (take 3 disconnect_while_connecting) (mount initial_hook)) = [(1, 1000, 0)]
   \<and> platform (run disconnect_while_connecting (mount initial_hook))
       = [NewWebSocket 0, CloseSocket 0 1000, SetTimeout 1 1000, NewWebSocket 1,
          ClearTimeout 1, CloseSocket 1 1000, NewWebSocket 2]
   \<and> wsRef (run disconnect_while_connecting (mount initial_hook)) = Some 2
   \<and> map readyState (sockets (run disconnect_while_connecting (mount initial_hook)))
       = [CLOSED, CLOSING, CONNECTING]
   \<and> timeouts (run (take 3 disconnect_with_two_timeouts) (mount initial_hook))
       = [(1, 1000, 0), (2, 1000, 0)]
   \<and> reconnectTimeoutRef (run (take 3 disconnect_with_two_timeouts) (mount initial_hook)) = Some 2
   \<and> timeouts (run (take 5 disconnect_with_two_timeouts) (mount initial_hook)) = [(1, 1000, 0)]
   \<and> sockets_made (platform (run (take 5 disconnect_with_two_timeouts) (mount initial_hook)))
       = [0, 1]
   \<and> sockets_made (platform (run disconnect_with_two_timeouts (mount initial_hook)))
       = [0, 1, 2, 3]
   \<and> wsRef (run disconnect_with_two_timeouts (mount initial_hook)) = Some 3"
  by (simp add: disconnect_while_connecting_def disconnect_with_two_timeouts_def hook_defs)

end
